theory Spec2Isabelle
  imports Main "HOL-Library.Word"
begin

section \<open>The tjo query builder (database/query\_builder.go, database/model.go)\<close>

text \<open>
  A shallow embedding of the fluent SQL builder.  Go strings are byte lists
  (\<open>string\<close>), Go's \<open>int\<close> is a 64-bit word, \<open>interface{}\<close> values are a closed
  sum of the dynamic types the builder is used with, an \<open>error\<close> is the format
  string and the arguments handed to \<open>fmt.Errorf\<close>, and a run-time panic is a
  value of type \<open>panic\<close> returned on the left of a sum.  A builder is mutated in
  place by its methods; here every method takes the builder and returns the
  updated one.
\<close>

subsection \<open>Values, errors, panics\<close>

type_synonym go_int = "64 word"

datatype val = VNil | VBool bool | VInt go_int | VStr string | VOther string

datatype error = Errorf string "fmt_arg list" | External string
  and fmt_arg = Q string | V error | W error

datatype panic = SliceBoundsOutOfRange int int | NilPointerDereference

definition backtick :: char where
  "backtick = CHR 0x60"

definition dquote :: char where
  "dquote = CHR 0x22"

definition qmark :: char where
  "qmark = CHR 0x3F"

subsection \<open>Library functions of Go used by the builder\<close>

definition HasPrefix :: "string \<Rightarrow> string \<Rightarrow> bool" where
  "HasPrefix s p = (take (length p) s = p)"

definition HasSuffix :: "string \<Rightarrow> string \<Rightarrow> bool" where
  "HasSuffix s p = (length p \<le> length s \<and> drop (length s - length p) s = p)"

definition ContainsAny :: "string \<Rightarrow> string \<Rightarrow> bool" where
  "ContainsAny s chars = list_ex (\<lambda>c. c \<in> set chars) s"

text \<open>The slice expression \<open>s[lo:hi]\<close>: it panics unless \<open>0 \<le> lo \<le> hi \<le> len(s)\<close>.\<close>

definition slice :: "string \<Rightarrow> int \<Rightarrow> int \<Rightarrow> panic + string" where
  "slice s lo hi =
     (if 0 \<le> lo \<and> lo \<le> hi \<and> hi \<le> int (length s)
      then Inr (take (nat (hi - lo)) (drop (nat lo) s))
      else Inl (SliceBoundsOutOfRange lo hi))"

text \<open>\<open>strings.Join\<close>.\<close>

fun strings_Join :: "string list \<Rightarrow> string \<Rightarrow> string" where
  "strings_Join [] sep = []"
| "strings_Join [x] sep = x"
| "strings_Join (x # y # ys) sep = x @ sep @ strings_Join (y # ys) sep"

text \<open>
  \<open>strings.ToUpper\<close> on ASCII text: the letters a..z are mapped to A..Z and every
  other byte is kept.
\<close>

definition upper_char :: "char \<Rightarrow> char" where
  "upper_char c =
     (case map_of (zip ''abcdefghijklmnopqrstuvwxyz'' ''ABCDEFGHIJKLMNOPQRSTUVWXYZ'') c of
        None \<Rightarrow> c
      | Some u \<Rightarrow> u)"

definition ToUpper :: "string \<Rightarrow> string" where
  "ToUpper s = map upper_char s"

text \<open>The verb \<open>%d\<close> on an \<open>int\<close>.\<close>

fun show_nat :: "nat \<Rightarrow> string" where
  "show_nat n =
     (if n < 10 then [''0123456789'' ! n]
      else show_nat (n div 10) @ [''0123456789'' ! (n mod 10)])"

declare show_nat.simps [simp del]

definition show_int :: "int \<Rightarrow> string" where
  "show_int i = (if i < 0 then CHR ''-'' # show_nat (nat (- i)) else show_nat (nat i))"

definition fmt_d :: "go_int \<Rightarrow> string" where
  "fmt_d n = show_int (sint n)"

text \<open>
  The verb \<open>%s\<close> on an \<open>interface{}\<close> value: a string is printed as it is, a
  value of another type as \<open>%!s(type=value)\<close>.  \<open>VOther t\<close> stands for a value of
  any further type, given by the text \<open>%s\<close> prints for it.
\<close>

fun fmt_s :: "val \<Rightarrow> string" where
  "fmt_s (VStr s) = s"
| "fmt_s (VInt n) = ''%!s(int='' @ fmt_d n @ '')''"
| "fmt_s (VBool b) = (if b then ''%!s(bool=true)'' else ''%!s(bool=false)'')"
| "fmt_s VNil = ''%!s(<nil>)''"
| "fmt_s (VOther t) = t"

subsection \<open>The validators\<close>

text \<open>
  The regular expressions of the source are anchored at both ends and are
  deterministic, so each is written as a recogniser that reads the string from
  the left.  \<open>\s\<close> is the class \<open>[\t\n\f\r ]\<close>.
\<close>

definition is_space :: "char \<Rightarrow> bool" where
  "is_space c = (c \<in> set [CHR 0x09, CHR 0x0A, CHR 0x0C, CHR 0x0D, CHR 0x20])"

definition is_letter :: "char \<Rightarrow> bool" where
  "is_letter c = (c \<in> set ''abcdefghijklmnopqrstuvwxyzABCDEFGHIJKLMNOPQRSTUVWXYZ_'')"

definition is_word_char :: "char \<Rightarrow> bool" where
  "is_word_char c = (is_letter c \<or> c \<in> set ''0123456789'')"

text \<open>\<open>^[a-zA-Z_][a-zA-Z0-9_]*$\<close>\<close>

definition match_ident :: "string \<Rightarrow> bool" where
  "match_ident s = (case s of [] \<Rightarrow> False | c # cs \<Rightarrow> is_letter c \<and> list_all is_word_char cs)"

text \<open>\<open>validIdentifier\<close>: \<open>^[a-zA-Z_][a-zA-Z0-9_]*(\.[a-zA-Z_][a-zA-Z0-9_]*)?$\<close>\<close>

definition validIdentifier :: "string \<Rightarrow> bool" where
  "validIdentifier s =
     (let a = takeWhile (\<lambda>c. c \<noteq> CHR ''.'') s;
          r = dropWhile (\<lambda>c. c \<noteq> CHR ''.'') s
      in match_ident a \<and> (r = [] \<or> match_ident (tl r)))"

text \<open>\<open>validOrderDirection\<close>: \<open>^(ASC|DESC)$\<close>\<close>

definition validOrderDirection :: "string \<Rightarrow> bool" where
  "validOrderDirection s = (s = ''ASC'' \<or> s = ''DESC'')"

definition isValidIdentifier :: "string \<Rightarrow> panic + bool" where
  "isValidIdentifier s =
     (if (HasPrefix s [backtick] \<and> HasSuffix s [backtick]) \<or>
         (HasPrefix s [dquote] \<and> HasSuffix s [dquote])
      then (case slice s 1 (int (length s) - 1) of
              Inl p \<Rightarrow> Inl p
            | Inr inner \<Rightarrow> Inr (length inner > 0 \<and> \<not> ContainsAny inner [backtick, dquote]))
      else Inr (validIdentifier s))"

definition validOps :: "string list" where
  "validOps =
     [''='', ''!='', ''<>'', ''<'', ''>'', ''<='', ''>='', ''LIKE'', ''NOT LIKE'',
      ''IN'', ''NOT IN'', ''BETWEEN'', ''IS NULL'', ''IS NOT NULL'', ''REGEXP'']"

definition isValidOperator :: "string \<Rightarrow> bool" where
  "isValidOperator op = (ToUpper op \<in> set validOps)"

text \<open>The tail \<open>\s+AS\s+[a-zA-Z_][a-zA-Z0-9_]*$\<close> shared by both select patterns.\<close>

definition match_as_alias :: "string \<Rightarrow> bool" where
  "match_as_alias r =
     (let r1 = dropWhile is_space r in
        length r1 < length r \<and> take 2 r1 = ''AS'' \<and>
        (let r2 = drop 2 r1; r3 = dropWhile is_space r2 in
           length r3 < length r2 \<and> match_ident r3))"

text \<open>
  \<open>aggregateFuncs\<close>:
  \<open>^(COUNT|SUM|AVG|MIN|MAX|GROUP_CONCAT)\s*\([^)]+\)(\s+AS\s+[a-zA-Z_][a-zA-Z0-9_]*)?$\<close>
\<close>

definition aggregateFuncs :: "string \<Rightarrow> bool" where
  "aggregateFuncs u =
     list_ex (\<lambda>name.
        HasPrefix u name \<and>
        (case dropWhile is_space (drop (length name) u) of
           [] \<Rightarrow> False
         | c # r1 \<Rightarrow>
             c = CHR ''('' \<and>
             (let arg = takeWhile (\<lambda>c. c \<noteq> CHR '')'') r1;
                  r2 = dropWhile (\<lambda>c. c \<noteq> CHR '')'') r1
              in arg \<noteq> [] \<and> r2 \<noteq> [] \<and> (tl r2 = [] \<or> match_as_alias (tl r2)))))
       [''COUNT'', ''SUM'', ''AVG'', ''MIN'', ''MAX'', ''GROUP_CONCAT'']"

text \<open>
  \<open>aliasPattern\<close>:
  \<open>^[a-zA-Z_][a-zA-Z0-9_]*(\.[a-zA-Z_][a-zA-Z0-9_]*)?\s+AS\s+[a-zA-Z_][a-zA-Z0-9_]*$\<close>
\<close>

definition aliasPattern :: "string \<Rightarrow> bool" where
  "aliasPattern s =
     (let a = takeWhile is_word_char s; r = dropWhile is_word_char s in
        match_ident a \<and>
        (case r of
           [] \<Rightarrow> False
         | c # r1 \<Rightarrow>
             if c = CHR ''.''
             then (let b = takeWhile is_word_char r1; r2 = dropWhile is_word_char r1
                   in match_ident b \<and> match_as_alias r2)
             else match_as_alias r))"

definition isValidSelectExpression :: "string \<Rightarrow> bool" where
  "isValidSelectExpression s = (if aggregateFuncs (ToUpper s) then True else aliasPattern s)"

text \<open>
  \<open>joinPattern\<close>: one comparison \<open>t.c = t.c\<close>, then any number of
  \<open>\s+(AND|OR)\s+\<close> followed by another comparison.  \<open>parse_qualified\<close> reads
  \<open>ident\.ident\<close> and returns what follows it; \<open>parse_comparison\<close> reads
  \<open>ident\.ident\s*=\s*ident\.ident\<close>.
\<close>

definition parse_qualified :: "string \<Rightarrow> string option" where
  "parse_qualified s =
     (let a = takeWhile is_word_char s; r = dropWhile is_word_char s in
        case r of
          [] \<Rightarrow> None
        | c # r1 \<Rightarrow>
            if match_ident a \<and> c = CHR ''.'' \<and> match_ident (takeWhile is_word_char r1)
            then Some (dropWhile is_word_char r1)
            else None)"

definition parse_comparison :: "string \<Rightarrow> string option" where
  "parse_comparison s =
     (case parse_qualified s of
        None \<Rightarrow> None
      | Some r \<Rightarrow>
          (case dropWhile is_space r of
             [] \<Rightarrow> None
           | c # r1 \<Rightarrow> if c = CHR ''='' then parse_qualified (dropWhile is_space r1) else None))"

definition parse_connective :: "string \<Rightarrow> string option" where
  "parse_connective r =
     (let r1 = dropWhile is_space r in
        if length r1 < length r
        then (let r2 = (if take 3 r1 = ''AND'' then Some (drop 3 r1)
                        else if take 2 r1 = ''OR'' then Some (drop 2 r1)
                        else None)
              in case r2 of
                   None \<Rightarrow> None
                 | Some r3 \<Rightarrow>
                     (let r4 = dropWhile is_space r3 in
                        if length r4 < length r3 then parse_comparison r4 else None))
        else None)"

lemma parse_qualified_length:
  "parse_qualified s = Some r \<Longrightarrow> length r \<le> length s"
proof -
  assume a: "parse_qualified s = Some r"
  have d: "length (dropWhile is_word_char xs) \<le> length xs" for xs
    by (rule length_dropWhile_le)
  from a obtain c r1 where s: "dropWhile is_word_char s = c # r1" and r: "r = dropWhile is_word_char r1"
    by (auto simp: parse_qualified_def Let_def split: list.splits if_splits)
  have "length r \<le> length r1" using r d by simp
  also have "\<dots> \<le> length (dropWhile is_word_char s)" using s by simp
  also have "\<dots> \<le> length s" by (rule d)
  finally show ?thesis .
qed

lemma parse_comparison_length:
  "parse_comparison s = Some r \<Longrightarrow> length r \<le> length s"
proof -
  assume a: "parse_comparison s = Some r"
  from a obtain r0 c r1 where q: "parse_qualified s = Some r0"
    and d: "dropWhile is_space r0 = c # r1"
    and p: "parse_qualified (dropWhile is_space r1) = Some r"
    by (auto simp: parse_comparison_def split: option.splits list.splits if_splits)
  have "length r \<le> length (dropWhile is_space r1)" using p by (rule parse_qualified_length)
  also have "\<dots> \<le> length r1" by (rule length_dropWhile_le)
  also have "\<dots> \<le> length (dropWhile is_space r0)" using d by simp
  also have "\<dots> \<le> length r0" by (rule length_dropWhile_le)
  also have "\<dots> \<le> length s" using q by (rule parse_qualified_length)
  finally show ?thesis .
qed

lemma parse_connective_length:
  "parse_connective s = Some r \<Longrightarrow> length r < length s"
proof -
  assume a: "parse_connective s = Some r"
  let ?r1 = "dropWhile is_space s"
  from a have l1: "length ?r1 < length s"
    by (auto simp: parse_connective_def Let_def split: if_splits)
  from a obtain r3 where r3: "r3 = drop 3 ?r1 \<or> r3 = drop 2 ?r1"
    and p: "parse_comparison (dropWhile is_space r3) = Some r"
    by (auto simp: parse_connective_def Let_def split: if_splits option.splits)
  have "length r \<le> length (dropWhile is_space r3)" using p by (rule parse_comparison_length)
  also have "\<dots> \<le> length r3" by (rule length_dropWhile_le)
  also have "\<dots> \<le> length ?r1" using r3 by auto
  finally show ?thesis using l1 by simp
qed

function join_tail :: "string \<Rightarrow> bool" where
  "join_tail r =
     (if r = [] then True
      else (case parse_connective r of None \<Rightarrow> False | Some r' \<Rightarrow> join_tail r'))"
  by pat_completeness auto
termination
  by (relation "measure length") (auto dest: parse_connective_length)

declare join_tail.simps [simp del]

definition isValidJoinCondition :: "string \<Rightarrow> bool" where
  "isValidJoinCondition on =
     (case parse_comparison on of None \<Rightarrow> False | Some r \<Rightarrow> join_tail r)"

subsection \<open>The builder\<close>

text \<open>
  The structs \<open>whereCondition\<close> and \<open>joinClause\<close>.  Three field names are
  taken in Isabelle or by another record: \<open>value\<close> is \<open>cvalue\<close> here, and the
  fields \<open>table\<close> and \<open>on\<close> of a join are \<open>join_table\<close> and \<open>join_on\<close>.
\<close>

record whereCondition =
  column :: string
  operator :: string
  cvalue :: val
  logic :: string
  params :: "val list"

record joinClause =
  joinType :: string
  join_table :: string
  join_on :: string

text \<open>
  What a database handle of the builder points to: the connection pool
  (\<open>*sql.DB\<close>) or a transaction (\<open>*sql.Tx\<close>); \<open>None\<close> is a nil pointer.
\<close>

datatype handle = SqlDB | SqlTx

text \<open>
  The struct \<open>QueryBuilder\<close>.  Its field \<open>unionQuery\<close> points to another
  builder, so the struct is a recursive datatype: the other fields are the
  record \<open>qb_fields\<close>, and \<open>unionQuery\<close> holds the state of the builder pointed
  to (\<open>None\<close> for nil), as it is when \<open>ToSQL\<close> reads it.  A chain of unions
  is therefore finite; a builder made its own union, on which \<open>ToSQL\<close> would
  recurse without end, is not a value of this type.  A nil slice and an empty
  slice are both the empty list: the code only ever takes their length, ranges
  over them or appends.
\<close>

record qb_fields =
  db :: "handle option"
  rawDB :: "handle option"
  table :: string
  selectCols :: "string list"
  whereConds :: "whereCondition list"
  orderBy :: "string list"
  groupBy :: "string list"
  having :: "whereCondition list"
  joins :: "joinClause list"
  limitCount :: go_int
  offsetCount :: go_int
  unionAll :: bool
  err :: "error option"
  includeTrashed :: bool

datatype QueryBuilder = QueryBuilder (flds: qb_fields) (unionQuery: "QueryBuilder option")

definition upd :: "(qb_fields \<Rightarrow> qb_fields) \<Rightarrow> QueryBuilder \<Rightarrow> QueryBuilder" where
  "upd g qb = QueryBuilder (g (flds qb)) (unionQuery qb)"

definition newQueryBuilderWithDB :: "handle option \<Rightarrow> handle option \<Rightarrow> QueryBuilder" where
  "newQueryBuilderWithDB d raw =
     QueryBuilder
       \<lparr>db = d, rawDB = raw, table = [], selectCols = [], whereConds = [], orderBy = [],
        groupBy = [], having = [], joins = [], limitCount = 0, offsetCount = 0,
        unionAll = False, err = None, includeTrashed = False\<rparr>
       None"

definition NewQueryBuilder :: "handle option \<Rightarrow> QueryBuilder" where
  "NewQueryBuilder d = newQueryBuilderWithDB d d"

subsection \<open>The mutators\<close>

text \<open>
  Every mutator returns the builder it was called on.  A mutator that calls
  \<open>isValidIdentifier\<close> can panic there; the panic ends the call chain, so such a
  mutator returns \<open>panic + QueryBuilder\<close>.
\<close>

definition set_err :: "error \<Rightarrow> QueryBuilder \<Rightarrow> QueryBuilder" where
  "set_err e qb = upd (\<lambda>f. f\<lparr>err := Some e\<rparr>) qb"

definition add_where :: "whereCondition \<Rightarrow> QueryBuilder \<Rightarrow> QueryBuilder" where
  "add_where c qb = upd (\<lambda>f. f\<lparr>whereConds := whereConds f @ [c]\<rparr>) qb"

definition add_join :: "joinClause \<Rightarrow> QueryBuilder \<Rightarrow> QueryBuilder" where
  "add_join j qb = upd (\<lambda>f. f\<lparr>joins := joins f @ [j]\<rparr>) qb"

definition Table :: "string \<Rightarrow> QueryBuilder \<Rightarrow> panic + QueryBuilder" where
  "Table t qb =
     (case isValidIdentifier t of
        Inl p \<Rightarrow> Inl p
      | Inr ok \<Rightarrow>
          if \<not> ok then Inr (set_err (Errorf ''invalid table name: %q'' [Q t]) qb)
          else Inr (upd (\<lambda>f. f\<lparr>table := t\<rparr>) qb))"

text \<open>The loop of \<open>Select\<close>: the error of the first column that is refused, if any.\<close>

fun select_loop :: "string list \<Rightarrow> panic + error option" where
  "select_loop [] = Inr None"
| "select_loop (col # rest) =
     (if col = ''*'' \<or> isValidSelectExpression col then select_loop rest
      else (case isValidIdentifier col of
              Inl p \<Rightarrow> Inl p
            | Inr ok \<Rightarrow>
                if \<not> ok then Inr (Some (Errorf ''invalid column name: %q'' [Q col]))
                else select_loop rest))"

definition Select :: "string list \<Rightarrow> QueryBuilder \<Rightarrow> panic + QueryBuilder" where
  "Select columns qb =
     (case select_loop columns of
        Inl p \<Rightarrow> Inl p
      | Inr (Some e) \<Rightarrow> Inr (set_err e qb)
      | Inr None \<Rightarrow> Inr (upd (\<lambda>f. f\<lparr>selectCols := columns\<rparr>) qb))"

definition Where :: "string \<Rightarrow> string \<Rightarrow> val \<Rightarrow> QueryBuilder \<Rightarrow> panic + QueryBuilder" where
  "Where col op v qb =
     (case isValidIdentifier col of
        Inl p \<Rightarrow> Inl p
      | Inr ok \<Rightarrow>
          if \<not> ok then Inr (set_err (Errorf ''invalid column name in WHERE: %q'' [Q col]) qb)
          else if \<not> isValidOperator op
          then Inr (set_err (Errorf ''invalid operator in WHERE: %q'' [Q op]) qb)
          else Inr (add_where
                 \<lparr>column = col, operator = op, cvalue = v, logic = ''AND'', params = []\<rparr> qb))"

definition OrWhere :: "string \<Rightarrow> string \<Rightarrow> val \<Rightarrow> QueryBuilder \<Rightarrow> panic + QueryBuilder" where
  "OrWhere col op v qb =
     (case isValidIdentifier col of
        Inl p \<Rightarrow> Inl p
      | Inr ok \<Rightarrow>
          if \<not> ok then Inr (set_err (Errorf ''invalid column name in OrWhere: %q'' [Q col]) qb)
          else if \<not> isValidOperator op
          then Inr (set_err (Errorf ''invalid operator in OrWhere: %q'' [Q op]) qb)
          else Inr (add_where
                 \<lparr>column = col, operator = op, cvalue = v, logic = ''OR'', params = []\<rparr> qb))"

definition WhereIn :: "string \<Rightarrow> val list \<Rightarrow> QueryBuilder \<Rightarrow> panic + QueryBuilder" where
  "WhereIn col values qb =
     (case isValidIdentifier col of
        Inl p \<Rightarrow> Inl p
      | Inr ok \<Rightarrow>
          if \<not> ok then Inr (set_err (Errorf ''invalid column name in WhereIn: %q'' [Q col]) qb)
          else
            (let placeholders = map (\<lambda>_. ''?'') values;
                 inClause = ''('' @ strings_Join placeholders '', '' @ '')''
             in Inr (add_where
                  \<lparr>column = col, operator = ''IN'', cvalue = VStr inClause, logic = ''AND'',
                   params = values\<rparr> qb)))"

definition WhereBetween :: "string \<Rightarrow> val \<Rightarrow> val \<Rightarrow> QueryBuilder \<Rightarrow> panic + QueryBuilder" where
  "WhereBetween col start end qb =
     (case isValidIdentifier col of
        Inl p \<Rightarrow> Inl p
      | Inr ok \<Rightarrow>
          if \<not> ok
          then Inr (set_err (Errorf ''invalid column name in WhereBetween: %q'' [Q col]) qb)
          else Inr (add_where
                 \<lparr>column = col, operator = ''BETWEEN'', cvalue = VStr ''? AND ?'', logic = ''AND'',
                  params = [start, end]\<rparr> qb))"

definition WhereNull :: "string \<Rightarrow> QueryBuilder \<Rightarrow> panic + QueryBuilder" where
  "WhereNull col qb =
     (case isValidIdentifier col of
        Inl p \<Rightarrow> Inl p
      | Inr ok \<Rightarrow>
          if \<not> ok then Inr (set_err (Errorf ''invalid column name in WhereNull: %q'' [Q col]) qb)
          else Inr (add_where
                 \<lparr>column = col, operator = ''IS NULL'', cvalue = VStr [], logic = ''AND'',
                  params = []\<rparr> qb))"

definition WhereNotNull :: "string \<Rightarrow> QueryBuilder \<Rightarrow> panic + QueryBuilder" where
  "WhereNotNull col qb =
     (case isValidIdentifier col of
        Inl p \<Rightarrow> Inl p
      | Inr ok \<Rightarrow>
          if \<not> ok
          then Inr (set_err (Errorf ''invalid column name in WhereNotNull: %q'' [Q col]) qb)
          else Inr (add_where
                 \<lparr>column = col, operator = ''IS NOT NULL'', cvalue = VStr [], logic = ''AND'',
                  params = []\<rparr> qb))"

definition Join :: "string \<Rightarrow> string \<Rightarrow> QueryBuilder \<Rightarrow> panic + QueryBuilder" where
  "Join t on qb =
     (case isValidIdentifier t of
        Inl p \<Rightarrow> Inl p
      | Inr ok \<Rightarrow>
          if \<not> ok then Inr (set_err (Errorf ''invalid table name in Join: %q'' [Q t]) qb)
          else if \<not> isValidJoinCondition on
          then Inr (set_err (Errorf ''invalid JOIN condition: %q'' [Q on]) qb)
          else Inr (add_join \<lparr>joinType = ''INNER'', join_table = t, join_on = on\<rparr> qb))"

definition LeftJoin :: "string \<Rightarrow> string \<Rightarrow> QueryBuilder \<Rightarrow> panic + QueryBuilder" where
  "LeftJoin t on qb =
     (case isValidIdentifier t of
        Inl p \<Rightarrow> Inl p
      | Inr ok \<Rightarrow>
          if \<not> ok then Inr (set_err (Errorf ''invalid table name in LeftJoin: %q'' [Q t]) qb)
          else if \<not> isValidJoinCondition on
          then Inr (set_err (Errorf ''invalid LEFT JOIN condition: %q'' [Q on]) qb)
          else Inr (add_join \<lparr>joinType = ''LEFT'', join_table = t, join_on = on\<rparr> qb))"

definition RightJoin :: "string \<Rightarrow> string \<Rightarrow> QueryBuilder \<Rightarrow> panic + QueryBuilder" where
  "RightJoin t on qb =
     (case isValidIdentifier t of
        Inl p \<Rightarrow> Inl p
      | Inr ok \<Rightarrow>
          if \<not> ok then Inr (set_err (Errorf ''invalid table name in RightJoin: %q'' [Q t]) qb)
          else if \<not> isValidJoinCondition on
          then Inr (set_err (Errorf ''invalid RIGHT JOIN condition: %q'' [Q on]) qb)
          else Inr (add_join \<lparr>joinType = ''RIGHT'', join_table = t, join_on = on\<rparr> qb))"

definition OrderBy :: "string \<Rightarrow> string \<Rightarrow> QueryBuilder \<Rightarrow> panic + QueryBuilder" where
  "OrderBy col direction qb =
     (case isValidIdentifier col of
        Inl p \<Rightarrow> Inl p
      | Inr ok \<Rightarrow>
          if \<not> ok then Inr (set_err (Errorf ''invalid column name in OrderBy: %q'' [Q col]) qb)
          else
            (let direction1 = (if direction = [] then ''ASC'' else direction);
                 dir = ToUpper direction1
             in if \<not> validOrderDirection dir
                then Inr (set_err (Errorf ''invalid ORDER BY direction: %q'' [Q direction1]) qb)
                else Inr (upd (\<lambda>f. f\<lparr>orderBy := orderBy f @ [col @ '' '' @ dir]\<rparr>) qb)))"

text \<open>The loop of \<open>GroupBy\<close>.\<close>

fun groupBy_loop :: "string list \<Rightarrow> panic + error option" where
  "groupBy_loop [] = Inr None"
| "groupBy_loop (col # rest) =
     (case isValidIdentifier col of
        Inl p \<Rightarrow> Inl p
      | Inr ok \<Rightarrow>
          if \<not> ok then Inr (Some (Errorf ''invalid column name in GroupBy: %q'' [Q col]))
          else groupBy_loop rest)"

definition GroupBy :: "string list \<Rightarrow> QueryBuilder \<Rightarrow> panic + QueryBuilder" where
  "GroupBy columns qb =
     (case groupBy_loop columns of
        Inl p \<Rightarrow> Inl p
      | Inr (Some e) \<Rightarrow> Inr (set_err e qb)
      | Inr None \<Rightarrow> Inr (upd (\<lambda>f. f\<lparr>groupBy := groupBy f @ columns\<rparr>) qb))"

definition Having :: "string \<Rightarrow> string \<Rightarrow> val \<Rightarrow> QueryBuilder \<Rightarrow> panic + QueryBuilder" where
  "Having col op v qb =
     (case isValidIdentifier col of
        Inl p \<Rightarrow> Inl p
      | Inr ok \<Rightarrow>
          if \<not> ok \<and> \<not> isValidSelectExpression col
          then Inr (set_err (Errorf ''invalid column/expression in Having: %q'' [Q col]) qb)
          else if \<not> isValidOperator op
          then Inr (set_err (Errorf ''invalid operator in Having: %q'' [Q op]) qb)
          else Inr (upd (\<lambda>f. f\<lparr>having := having f @
                 [\<lparr>column = col, operator = op, cvalue = v, logic = ''AND'', params = []\<rparr>]\<rparr>) qb))"

definition Limit :: "go_int \<Rightarrow> QueryBuilder \<Rightarrow> QueryBuilder" where
  "Limit count qb = upd (\<lambda>f. f\<lparr>limitCount := count\<rparr>) qb"

definition Offset :: "go_int \<Rightarrow> QueryBuilder \<Rightarrow> QueryBuilder" where
  "Offset count qb = upd (\<lambda>f. f\<lparr>offsetCount := count\<rparr>) qb"

text \<open>\<open>Union\<close> (called \<open>UnionQ\<close>, the name \<open>Union\<close> being taken) and \<open>UnionAll\<close>.\<close>

definition UnionQ :: "QueryBuilder \<Rightarrow> QueryBuilder \<Rightarrow> QueryBuilder" where
  "UnionQ query qb = QueryBuilder ((flds qb)\<lparr>unionAll := False\<rparr>) (Some query)"

definition UnionAll :: "QueryBuilder \<Rightarrow> QueryBuilder \<Rightarrow> QueryBuilder" where
  "UnionAll query qb = QueryBuilder ((flds qb)\<lparr>unionAll := True\<rparr>) (Some query)"

definition Paginate :: "go_int \<Rightarrow> go_int \<Rightarrow> QueryBuilder \<Rightarrow> QueryBuilder" where
  "Paginate page perPage qb =
     (let page1 = (if sint page < 1 then 1 else page);
          perPage1 = (if sint perPage < 1 then 15 else perPage);
          offset = (page1 - 1) * perPage1
      in Offset offset (Limit perPage1 qb))"

definition WithTrashed :: "QueryBuilder \<Rightarrow> QueryBuilder" where
  "WithTrashed qb = upd (\<lambda>f. f\<lparr>includeTrashed := True\<rparr>) qb"

definition OnlyTrashed :: "QueryBuilder \<Rightarrow> panic + QueryBuilder" where
  "OnlyTrashed qb = WhereNotNull ''deleted_at'' qb"

subsection \<open>Assembly: ToSQL\<close>

fun join_loop :: "joinClause list \<Rightarrow> string \<Rightarrow> string" where
  "join_loop [] query = query"
| "join_loop (j # rest) query =
     join_loop rest (query @ '' '' @ joinType j @ '' JOIN '' @ join_table j @ '' ON '' @ join_on j)"

text \<open>
  One turn of the loop over the WHERE conditions: \<open>i\<close> is the index of the
  condition, the pair is the text written so far and the parameters so far.
\<close>

definition where_step :: "nat \<Rightarrow> whereCondition \<Rightarrow> string \<times> val list \<Rightarrow> string \<times> val list" where
  "where_step i cond acc =
     (case acc of (query, ps) \<Rightarrow>
        (let query1 = (if i > 0 then query @ '' '' @ logic cond @ '' '' else query) in
           if operator cond = ''IS NULL'' \<or> operator cond = ''IS NOT NULL''
           then (query1 @ column cond @ '' '' @ operator cond, ps)
           else if operator cond = ''IN'' \<or> operator cond = ''BETWEEN''
           then (query1 @ column cond @ '' '' @ operator cond @ '' '' @ fmt_s (cvalue cond),
                 ps @ params cond)
           else (query1 @ column cond @ '' '' @ operator cond @ '' ?'', ps @ [cvalue cond])))"

fun where_loop :: "nat \<Rightarrow> whereCondition list \<Rightarrow> string \<times> val list \<Rightarrow> string \<times> val list" where
  "where_loop i [] acc = acc"
| "where_loop i (cond # rest) acc = where_loop (Suc i) rest (where_step i cond acc)"

definition having_step :: "nat \<Rightarrow> whereCondition \<Rightarrow> string \<times> val list \<Rightarrow> string \<times> val list" where
  "having_step i cond acc =
     (case acc of (query, ps) \<Rightarrow>
        (let query1 = (if i > 0 then query @ '' '' @ logic cond @ '' '' else query) in
           (query1 @ column cond @ '' '' @ operator cond @ '' ?'', ps @ [cvalue cond])))"

fun having_loop :: "nat \<Rightarrow> whereCondition list \<Rightarrow> string \<times> val list \<Rightarrow> string \<times> val list" where
  "having_loop i [] acc = acc"
| "having_loop i (cond # rest) acc = having_loop (Suc i) rest (having_step i cond acc)"

text \<open>Everything \<open>ToSQL\<close> writes before the UNION clause.\<close>

definition assemble :: "qb_fields \<Rightarrow> string \<times> val list" where
  "assemble f =
     (let query = ''SELECT '';
          query = query @ (if length (selectCols f) = 0 then ''*''
                           else strings_Join (selectCols f) '', '');
          query = query @ '' FROM '' @ table f;
          query = join_loop (joins f) query;
          acc = (if length (whereConds f) > 0
                 then where_loop 0 (whereConds f) (query @ '' WHERE '', [])
                 else (query, []));
          acc = (if length (groupBy f) > 0
                 then (fst acc @ '' GROUP BY '' @ strings_Join (groupBy f) '', '', snd acc)
                 else acc);
          acc = (if length (having f) > 0
                 then having_loop 0 (having f) (fst acc @ '' HAVING '', snd acc)
                 else acc);
          acc = (if length (orderBy f) > 0
                 then (fst acc @ '' ORDER BY '' @ strings_Join (orderBy f) '', '', snd acc)
                 else acc);
          acc = (if sint (limitCount f) > 0
                 then (fst acc @ '' LIMIT '' @ fmt_d (limitCount f), snd acc)
                 else acc);
          acc = (if sint (offsetCount f) > 0
                 then (fst acc @ '' OFFSET '' @ fmt_d (offsetCount f), snd acc)
                 else acc)
      in acc)"

fun ToSQL :: "QueryBuilder \<Rightarrow> error + string \<times> val list" where
  "ToSQL (QueryBuilder f u) =
     (case err f of
        Some e \<Rightarrow> Inl e
      | None \<Rightarrow>
          if table f = [] then Inl (Errorf ''table name is required'' [])
          else (case assemble f of (query, ps) \<Rightarrow>
            (case u of
               None \<Rightarrow> Inr (query, ps)
             | Some uq \<Rightarrow>
                 (case ToSQL uq of
                    Inl e \<Rightarrow> Inl e
                  | Inr (unionSQL, unionParams) \<Rightarrow>
                      Inr (query @ '' '' @ (if unionAll f then ''UNION ALL'' else ''UNION'')
                             @ '' '' @ unionSQL,
                           ps @ unionParams)))))"

subsection \<open>Scopes\<close>

text \<open>\<open>Scope\<close> feeds the builder through the scopes from left to right.\<close>

fun Scope :: "(QueryBuilder \<Rightarrow> panic + QueryBuilder) list \<Rightarrow> QueryBuilder \<Rightarrow> panic + QueryBuilder" where
  "Scope [] qb = Inr qb"
| "Scope (scope # rest) qb = (case scope qb of Inl p \<Rightarrow> Inl p | Inr qb' \<Rightarrow> Scope rest qb')"

definition Active :: "QueryBuilder \<Rightarrow> panic + QueryBuilder" where
  "Active qb = Where ''active'' ''='' (VBool True) qb"

definition Recent :: "QueryBuilder \<Rightarrow> panic + QueryBuilder" where
  "Recent qb = OrderBy ''created_at'' ''DESC'' qb"

definition Oldest :: "QueryBuilder \<Rightarrow> panic + QueryBuilder" where
  "Oldest qb = OrderBy ''created_at'' ''ASC'' qb"

definition Published :: "QueryBuilder \<Rightarrow> panic + QueryBuilder" where
  "Published qb =
     (case Where ''published'' ''='' (VBool True) qb of
        Inl p \<Rightarrow> Inl p
      | Inr qb' \<Rightarrow> WhereNotNull ''published_at'' qb')"

definition Draft :: "QueryBuilder \<Rightarrow> panic + QueryBuilder" where
  "Draft qb = Where ''published'' ''='' (VBool False) qb"

subsection \<open>Chains of mutator calls\<close>

text \<open>
  A call chain \<open>qb.A(..).B(..)\<close> is the list of its calls, run from left to
  right on the builder; a panic ends the chain.
\<close>

datatype call =
    CTable string
  | CSelect "string list"
  | CWhere string string val
  | COrWhere string string val
  | CWhereIn string "val list"
  | CWhereBetween string val val
  | CWhereNull string
  | CWhereNotNull string
  | CJoin string string
  | CLeftJoin string string
  | CRightJoin string string
  | COrderBy string string
  | CGroupBy "string list"
  | CHaving string string val
  | CLimit go_int
  | COffset go_int
  | CUnion QueryBuilder
  | CUnionAll QueryBuilder
  | CPaginate go_int go_int
  | CWithTrashed
  | COnlyTrashed
  | CActive
  | CRecent
  | COldest
  | CPublished
  | CDraft

fun apply_call :: "call \<Rightarrow> QueryBuilder \<Rightarrow> panic + QueryBuilder" where
  "apply_call (CTable t) qb = Table t qb"
| "apply_call (CSelect cols) qb = Select cols qb"
| "apply_call (CWhere c op v) qb = Where c op v qb"
| "apply_call (COrWhere c op v) qb = OrWhere c op v qb"
| "apply_call (CWhereIn c vs) qb = WhereIn c vs qb"
| "apply_call (CWhereBetween c a b) qb = WhereBetween c a b qb"
| "apply_call (CWhereNull c) qb = WhereNull c qb"
| "apply_call (CWhereNotNull c) qb = WhereNotNull c qb"
| "apply_call (CJoin t on) qb = Join t on qb"
| "apply_call (CLeftJoin t on) qb = LeftJoin t on qb"
| "apply_call (CRightJoin t on) qb = RightJoin t on qb"
| "apply_call (COrderBy c d) qb = OrderBy c d qb"
| "apply_call (CGroupBy cols) qb = GroupBy cols qb"
| "apply_call (CHaving c op v) qb = Having c op v qb"
| "apply_call (CLimit n) qb = Inr (Limit n qb)"
| "apply_call (COffset n) qb = Inr (Offset n qb)"
| "apply_call (CUnion q) qb = Inr (UnionQ q qb)"
| "apply_call (CUnionAll q) qb = Inr (UnionAll q qb)"
| "apply_call (CPaginate page perPage) qb = Inr (Paginate page perPage qb)"
| "apply_call CWithTrashed qb = Inr (WithTrashed qb)"
| "apply_call COnlyTrashed qb = OnlyTrashed qb"
| "apply_call CActive qb = Scope [Active] qb"
| "apply_call CRecent qb = Scope [Recent] qb"
| "apply_call COldest qb = Scope [Oldest] qb"
| "apply_call CPublished qb = Scope [Published] qb"
| "apply_call CDraft qb = Scope [Draft] qb"

fun run :: "call list \<Rightarrow> QueryBuilder \<Rightarrow> panic + QueryBuilder" where
  "run [] qb = Inr qb"
| "run (c # cs) qb = (case apply_call c qb of Inl p \<Rightarrow> Inl p | Inr qb' \<Rightarrow> run cs qb')"

subsection \<open>The model layer (database/model.go)\<close>

record Model =
  m_table :: string
  primaryKey :: string
  softDelete :: bool

definition NewModel :: "string \<Rightarrow> Model" where
  "NewModel t = \<lparr>m_table = t, primaryKey = ''id'', softDelete = False\<rparr>"

definition WithPrimaryKey :: "string \<Rightarrow> Model \<Rightarrow> Model" where
  "WithPrimaryKey pk m = m\<lparr>primaryKey := pk\<rparr>"

definition WithSoftDelete :: "Model \<Rightarrow> Model" where
  "WithSoftDelete m = m\<lparr>softDelete := True\<rparr>"

definition Model_Query :: "Model \<Rightarrow> handle option \<Rightarrow> panic + QueryBuilder" where
  "Model_Query m d =
     (case isValidIdentifier (m_table m) of
        Inl p \<Rightarrow> Inl p
      | Inr ok \<Rightarrow>
          if \<not> ok
          then Inr (set_err (Errorf ''invalid table name: %q'' [Q (m_table m)]) (NewQueryBuilder d))
          else (case Table (m_table m) (NewQueryBuilder d) of
                  Inl p \<Rightarrow> Inl p
                | Inr qb \<Rightarrow> if softDelete m then WhereNull ''deleted_at'' qb else Inr qb))"

subsection \<open>The database behind the builder\<close>

text \<open>
  The builder talks to \<open>database/sql\<close>, which is outside the repository.  Every
  call made on a handle is written to a log of events, and what the database
  answers is given by an environment that sees the log so far.  A call on a
  nil handle panics with a nil pointer dereference.  The callbacks passed to
  \<open>Chunk\<close>, \<open>ChunkByID\<close> and \<open>Transaction\<close> are logged when they are invoked.
\<close>

type_synonym rows = "val list list"

datatype event =
    EvQuery handle string "val list"
  | EvQueryRow handle string "val list"
  | EvExec handle string "val list"
  | EvBegin
  | EvCommit
  | EvRollback
  | EvCallback

record env =
  query_result :: "event list \<Rightarrow> string \<Rightarrow> val list \<Rightarrow> error + rows"
  scan_result :: "event list \<Rightarrow> string \<Rightarrow> val list \<Rightarrow> error + go_int"
  exec_result :: "event list \<Rightarrow> string \<Rightarrow> val list \<Rightarrow> error + go_int \<times> go_int"
  begin_result :: "event list \<Rightarrow> error option"
  commit_result :: "event list \<Rightarrow> error option"
  rollback_result :: "event list \<Rightarrow> error option"

text \<open>What a terminal call does: it panics, returns an error, or returns a result.\<close>

datatype 'a outcome = Panicked panic | Failed error | Done 'a

definition db_Query :: "env \<Rightarrow> handle option \<Rightarrow> string \<Rightarrow> val list \<Rightarrow> event list \<Rightarrow> rows outcome \<times> event list" where
  "db_Query ev d query ps tr =
     (case d of
        None \<Rightarrow> (Panicked NilPointerDereference, tr)
      | Some h \<Rightarrow>
          (case query_result ev tr query ps of
             Inl e \<Rightarrow> (Failed e, tr @ [EvQuery h query ps])
           | Inr rs \<Rightarrow> (Done rs, tr @ [EvQuery h query ps])))"

definition db_QueryRow_Scan :: "env \<Rightarrow> handle option \<Rightarrow> string \<Rightarrow> val list \<Rightarrow> event list \<Rightarrow> go_int outcome \<times> event list" where
  "db_QueryRow_Scan ev d query ps tr =
     (case d of
        None \<Rightarrow> (Panicked NilPointerDereference, tr)
      | Some h \<Rightarrow>
          (case scan_result ev tr query ps of
             Inl e \<Rightarrow> (Failed e, tr @ [EvQueryRow h query ps])
           | Inr n \<Rightarrow> (Done n, tr @ [EvQueryRow h query ps])))"

definition db_Exec :: "env \<Rightarrow> handle option \<Rightarrow> string \<Rightarrow> val list \<Rightarrow> event list \<Rightarrow> (go_int \<times> go_int) outcome \<times> event list" where
  "db_Exec ev d query ps tr =
     (case d of
        None \<Rightarrow> (Panicked NilPointerDereference, tr)
      | Some h \<Rightarrow>
          (case exec_result ev tr query ps of
             Inl e \<Rightarrow> (Failed e, tr @ [EvExec h query ps])
           | Inr r \<Rightarrow> (Done r, tr @ [EvExec h query ps])))"

subsection \<open>The terminal calls\<close>

definition Get :: "QueryBuilder \<Rightarrow> env \<Rightarrow> event list \<Rightarrow> rows outcome \<times> event list" where
  "Get qb ev tr =
     (case ToSQL qb of
        Inl e \<Rightarrow> (Failed e, tr)
      | Inr (query, ps) \<Rightarrow> db_Query ev (db (flds qb)) query ps tr)"

text \<open>\<open>Count\<close> writes to the builder, so it also returns the builder it leaves behind.\<close>

definition Count :: "QueryBuilder \<Rightarrow> env \<Rightarrow> event list \<Rightarrow> go_int outcome \<times> QueryBuilder \<times> event list" where
  "Count qb ev tr =
     (let originalSelect = selectCols (flds qb);
          qb1 = upd (\<lambda>f. f\<lparr>selectCols := [''COUNT(*)'']\<rparr>) qb
      in case ToSQL qb1 of
           Inl e \<Rightarrow> (Failed e, qb1, tr)
         | Inr (query, ps) \<Rightarrow>
             (let qb2 = upd (\<lambda>f. f\<lparr>selectCols := originalSelect\<rparr>) qb1
              in case db_QueryRow_Scan ev (db (flds qb2)) query ps tr of
                   (r, tr') \<Rightarrow> (r, qb2, tr')))"

text \<open>
  \<open>Insert\<close> and \<open>Update\<close> range over a Go map; \<open>data\<close> lists its entries in the
  order in which the loop visits them.
\<close>

fun insert_loop :: "(string \<times> val) list \<Rightarrow> string list \<times> string list \<times> val list \<Rightarrow>
    (string list \<times> string list \<times> val list) outcome" where
  "insert_loop [] acc = Done acc"
| "insert_loop ((col, v) # rest) (columns, placeholders, vals) =
     (case isValidIdentifier col of
        Inl p \<Rightarrow> Panicked p
      | Inr ok \<Rightarrow>
          if \<not> ok then Failed (Errorf ''invalid column name in Insert: %q'' [Q col])
          else insert_loop rest (columns @ [col], placeholders @ [''?''], vals @ [v]))"

definition Insert :: "(string \<times> val) list \<Rightarrow> QueryBuilder \<Rightarrow> env \<Rightarrow> event list \<Rightarrow>
    (go_int \<times> go_int) outcome \<times> event list" where
  "Insert data qb ev tr =
     (case err (flds qb) of
        Some e \<Rightarrow> (Failed e, tr)
      | None \<Rightarrow>
          if table (flds qb) = [] then (Failed (Errorf ''table name is required'' []), tr)
          else (case insert_loop data ([], [], []) of
                  Panicked p \<Rightarrow> (Panicked p, tr)
                | Failed e \<Rightarrow> (Failed e, tr)
                | Done (columns, placeholders, vals) \<Rightarrow>
                    db_Exec ev (db (flds qb))
                      (''INSERT INTO '' @ table (flds qb) @ '' ('' @ strings_Join columns '', ''
                         @ '') VALUES ('' @ strings_Join placeholders '', '' @ '')'')
                      vals tr))"

fun update_loop :: "(string \<times> val) list \<Rightarrow> string list \<times> val list \<Rightarrow> (string list \<times> val list) outcome" where
  "update_loop [] acc = Done acc"
| "update_loop ((col, v) # rest) (setParts, ps) =
     (case isValidIdentifier col of
        Inl p \<Rightarrow> Panicked p
      | Inr ok \<Rightarrow>
          if \<not> ok then Failed (Errorf ''invalid column name in Update: %q'' [Q col])
          else update_loop rest (setParts @ [col @ '' = ?''], ps @ [v]))"

text \<open>
  \<open>Update\<close> and \<open>Delete\<close> write their WHERE clause with a loop that is, line for
  line, the loop of \<open>ToSQL\<close>.
\<close>

definition Update :: "(string \<times> val) list \<Rightarrow> QueryBuilder \<Rightarrow> env \<Rightarrow> event list \<Rightarrow>
    (go_int \<times> go_int) outcome \<times> event list" where
  "Update data qb ev tr =
     (case err (flds qb) of
        Some e \<Rightarrow> (Failed e, tr)
      | None \<Rightarrow>
          if table (flds qb) = [] then (Failed (Errorf ''table name is required'' []), tr)
          else (case update_loop data ([], []) of
                  Panicked p \<Rightarrow> (Panicked p, tr)
                | Failed e \<Rightarrow> (Failed e, tr)
                | Done (setParts, ps) \<Rightarrow>
                    (let query = ''UPDATE '' @ table (flds qb) @ '' SET '' @ strings_Join setParts '', '';
                         acc = (if length (whereConds (flds qb)) > 0
                                then where_loop 0 (whereConds (flds qb)) (query @ '' WHERE '', ps)
                                else (query, ps))
                     in db_Exec ev (db (flds qb)) (fst acc) (snd acc) tr)))"


subsection \<open>Chunked iteration\<close>

text \<open>
  The callback of \<open>Chunk\<close> gets the rows of a page and says whether to go on;
  what it answers may depend on everything that happened before.  The loops
  need not end (a page that never runs empty, a callback that never says
  stop), so they are partial functions: \<open>None\<close> is a loop that never returns.
\<close>

type_synonym chunk_callback = "event list \<Rightarrow> rows \<Rightarrow> bool"

definition chunkQB :: "qb_fields \<Rightarrow> go_int \<Rightarrow> go_int \<Rightarrow> QueryBuilder" where
  "chunkQB f sz offset =
     QueryBuilder
       \<lparr>db = db f, rawDB = rawDB f, table = table f, selectCols = selectCols f,
        whereConds = whereConds f, orderBy = orderBy f, groupBy = groupBy f,
        having = having f, joins = joins f, limitCount = sz, offsetCount = offset,
        unionAll = False, err = None, includeTrashed = includeTrashed f\<rparr>
       None"

partial_function (option) chunk_loop ::
    "env \<Rightarrow> chunk_callback \<Rightarrow> qb_fields \<Rightarrow> go_int \<Rightarrow> go_int \<Rightarrow> event list \<Rightarrow>
     (unit outcome \<times> event list) option" where
  "chunk_loop ev fn f sz offset tr =
     (case Get (chunkQB f sz offset) ev tr of
        (Panicked p, tr1) \<Rightarrow> Some (Panicked p, tr1)
      | (Failed e, tr1) \<Rightarrow> Some (Failed e, tr1)
      | (Done rows, tr1) \<Rightarrow>
          if rows \<noteq> [] then
            (case Get (chunkQB f sz offset) ev tr1 of
               (Panicked p, tr2) \<Rightarrow> Some (Panicked p, tr2)
             | (Failed e, tr2) \<Rightarrow> Some (Failed e, tr2)
             | (Done rows2, tr2) \<Rightarrow>
                 if \<not> fn tr2 rows2 then Some (Done (), tr2 @ [EvCallback])
                 else chunk_loop ev fn f sz (offset + sz) (tr2 @ [EvCallback]))
          else Some (Done (), tr1))"

definition Chunk :: "go_int \<Rightarrow> chunk_callback \<Rightarrow> QueryBuilder \<Rightarrow> env \<Rightarrow> event list \<Rightarrow>
    (unit outcome \<times> event list) option" where
  "Chunk sz fn qb ev tr =
     (if sint sz \<le> 0 then Some (Failed (Errorf ''chunk size must be positive'' []), tr)
      else chunk_loop ev fn (flds qb) sz 0 tr)"

definition chunkByID_QB :: "qb_fields \<Rightarrow> go_int \<Rightarrow> string \<Rightarrow> val \<Rightarrow> QueryBuilder" where
  "chunkByID_QB f sz col lastID =
     QueryBuilder
       \<lparr>db = db f, rawDB = rawDB f, table = table f, selectCols = selectCols f,
        whereConds = whereConds f @
          [\<lparr>column = col, operator = ''>'', cvalue = lastID, logic = ''AND'', params = []\<rparr>],
        orderBy = [col @ '' ASC''], groupBy = groupBy f,
        having = having f, joins = joins f, limitCount = sz, offsetCount = 0,
        unionAll = False, err = None, includeTrashed = includeTrashed f\<rparr>
       None"

partial_function (option) chunkByID_loop ::
    "env \<Rightarrow> chunk_callback \<Rightarrow> qb_fields \<Rightarrow> go_int \<Rightarrow> string \<Rightarrow> val \<Rightarrow> event list \<Rightarrow>
     (unit outcome \<times> event list) option" where
  "chunkByID_loop ev fn f sz col lastID tr =
     (case Get (chunkByID_QB f sz col lastID) ev tr of
        (Panicked p, tr1) \<Rightarrow> Some (Panicked p, tr1)
      | (Failed e, tr1) \<Rightarrow> Some (Failed e, tr1)
      | (Done rows, tr1) \<Rightarrow>
          if rows = [] then Some (Done (), tr1)
          else
            (case Get (chunkByID_QB f sz col lastID) ev tr1 of
               (Panicked p, tr2) \<Rightarrow> Some (Panicked p, tr2)
             | (Failed e, tr2) \<Rightarrow> Some (Failed e, tr2)
             | (Done rows2, tr2) \<Rightarrow>
                 if \<not> fn tr2 rows2 then Some (Done (), tr2 @ [EvCallback])
                 else chunkByID_loop ev fn f sz col lastID (tr2 @ [EvCallback])))"

definition ChunkByID :: "go_int \<Rightarrow> string \<Rightarrow> chunk_callback \<Rightarrow> QueryBuilder \<Rightarrow> env \<Rightarrow> event list \<Rightarrow>
    (unit outcome \<times> event list) option" where
  "ChunkByID sz col fn qb ev tr =
     (if sint sz \<le> 0 then Some (Failed (Errorf ''chunk size must be positive'' []), tr)
      else (case isValidIdentifier col of
              Inl p \<Rightarrow> Some (Panicked p, tr)
            | Inr ok \<Rightarrow>
                if \<not> ok then Some (Failed (Errorf ''invalid column name: %q'' [Q col]), tr)
                else chunkByID_loop ev fn (flds qb) sz col (VInt 0) tr))"

subsection \<open>Transactions\<close>

text \<open>
  The function passed to \<open>Transaction\<close> works on the transaction's builder; it
  may call the database, which adds to the log, and returns an error or nil.
\<close>

type_synonym tx_callback = "QueryBuilder \<Rightarrow> event list \<Rightarrow> error option \<times> event list"

definition Transaction :: "tx_callback \<Rightarrow> QueryBuilder \<Rightarrow> env \<Rightarrow> event list \<Rightarrow> unit outcome \<times> event list" where
  "Transaction fn qb ev tr =
     (case rawDB (flds qb) of
        None \<Rightarrow> (Failed (Errorf ''cannot start transaction: no database connection'' []), tr)
      | Some h \<Rightarrow>
          (case begin_result ev tr of
             Some e \<Rightarrow> (Failed (Errorf ''failed to begin transaction: %w'' [W e]), tr @ [EvBegin])
           | None \<Rightarrow>
               (let txQB = newQueryBuilderWithDB (Some SqlTx) (rawDB (flds qb)) in
                case fn txQB (tr @ [EvBegin, EvCallback]) of
                  (Some e, tr1) \<Rightarrow>
                    (case rollback_result ev tr1 of
                       Some rbErr \<Rightarrow>
                         (Failed (Errorf ''rollback failed: %v (original error: %w)'' [V rbErr, W e]),
                          tr1 @ [EvRollback])
                     | None \<Rightarrow> (Failed e, tr1 @ [EvRollback]))
                | (None, tr1) \<Rightarrow>
                    (case commit_result ev tr1 of
                       Some e \<Rightarrow>
                         (Failed (Errorf ''failed to commit transaction: %w'' [W e]), tr1 @ [EvCommit])
                     | None \<Rightarrow> (Done (), tr1 @ [EvCommit])))))"

subsection \<open>The error a chain of calls leaves on the builder\<close>

text \<open>
  \<open>call_error c\<close> is the sticky error that the call \<open>c\<close> sets when it is made
  on a new builder (\<open>None\<close> when it sets none), and \<open>sticky_after ms e\<close> follows
  the field \<open>err\<close> through the calls \<open>ms\<close>, starting from \<open>e\<close>: every call that
  sets an error overwrites what was there.
\<close>

definition call_error :: "call \<Rightarrow> error option" where
  "call_error c = (case apply_call c (NewQueryBuilder None) of Inl p \<Rightarrow> None | Inr qb \<Rightarrow> err (flds qb))"

fun sticky_after :: "call list \<Rightarrow> error option \<Rightarrow> error option" where
  "sticky_after [] e = e"
| "sticky_after (c # cs) e =
     sticky_after cs (case call_error c of None \<Rightarrow> e | Some e' \<Rightarrow> Some e')"

subsection \<open>Placeholders and parameters\<close>

text \<open>
  The placeholders of a statement are the characters \<open>?\<close> in its text.  A text
  is plain when it has none.  A builder is balanced when \<open>ToSQL\<close>, if it
  succeeds on it, gives a text with as many placeholders as parameters.
\<close>

definition placeholders :: "string \<Rightarrow> nat" where
  "placeholders sql = length (filter (\<lambda>c. c = qmark) sql)"

definition no_q :: "string \<Rightarrow> bool" where
  "no_q s = (qmark \<notin> set s)"









text \<open>A database that has no rows and never fails, for the worked examples.\<close>

definition empty_env :: env where
  "empty_env =
     \<lparr>query_result = \<lambda>_ _ _. Inr [], scan_result = \<lambda>_ _ _. Inr 0,
      exec_result = \<lambda>_ _ _. Inr (0, 0), begin_result = \<lambda>_. None,
      commit_result = \<lambda>_. None, rollback_result = \<lambda>_. None\<rparr>"

section \<open>Properties\<close>

subsection \<open>Basic facts about builders\<close>

lemma flds_upd [simp]: "flds (upd g qb) = g (flds qb)"
  by (simp add: upd_def)

lemma unionQuery_upd [simp]: "unionQuery (upd g qb) = unionQuery qb"
  by (simp add: upd_def)

lemma ToSQL_cong:
  assumes "err f = err g" and "table f = table g" and "unionAll f = unionAll g"
    and "assemble f = assemble g"
  shows "ToSQL (QueryBuilder f u) = ToSQL (QueryBuilder g u)"
  unfolding ToSQL.simps assms by (rule refl)

lemma assemble_cong:
  assumes "selectCols f = selectCols g" and "table f = table g" and "joins f = joins g"
    and "(length (whereConds f) > 0) = (length (whereConds g) > 0)"
    and "\<And>acc. where_loop 0 (whereConds f) acc = where_loop 0 (whereConds g) acc"
    and "groupBy f = groupBy g" and "having f = having g"
    and "orderBy f = orderBy g" and "limitCount f = limitCount g"
    and "offsetCount f = offsetCount g"
  shows "assemble f = assemble g"
  unfolding assemble_def assms by (rule refl)

lemma assemble_includeTrashed: "assemble (f\<lparr>includeTrashed := b\<rparr>) = assemble f"
  by (rule assemble_cong) simp_all

subsection \<open>Further facts about the validators, Count and Paginate\<close>

text \<open>
  \<open>isValidIdentifier\<close> panics on exactly two strings.  \<open>Count\<close> gives the
  builder back as it was when assembly succeeds.  The offset \<open>Paginate\<close> sets is
  the product of the integers when that product fits into an \<open>int\<close>, and wraps
  around otherwise.
\<close>

lemma isValidIdentifier_panics_iff:
  "isValidIdentifier s = Inl p \<longleftrightarrow>
     (s = [backtick] \<or> s = [dquote]) \<and> p = SliceBoundsOutOfRange 1 0"
proof (cases s)
  case Nil
  then show ?thesis
    by (simp add: isValidIdentifier_def HasPrefix_def HasSuffix_def)
next
  case (Cons c cs)
  show ?thesis
  proof (cases cs)
    case Nil
    with Cons show ?thesis
      by (auto simp: isValidIdentifier_def HasPrefix_def HasSuffix_def slice_def
            backtick_def dquote_def)
  next
    case (Cons d ds)
    with \<open>s = c # cs\<close> have "slice s 1 (int (length s) - 1) = Inr (take (length ds) (d # ds))"
      by (simp add: slice_def)
    then show ?thesis
      using Cons \<open>s = c # cs\<close> by (auto simp: isValidIdentifier_def)
  qed
qed

lemma Count_restores_on_success:
  assumes "ToSQL (upd (\<lambda>f. f\<lparr>selectCols := [''COUNT(*)'']\<rparr>) qb) = Inr x"
  shows "fst (snd (Count qb ev tr)) = qb"
proof -
  have "upd (\<lambda>f. f\<lparr>selectCols := selectCols (flds qb)\<rparr>)
          (upd (\<lambda>f. f\<lparr>selectCols := [''COUNT(*)'']\<rparr>) qb) = qb"
    by (cases qb) (simp add: upd_def)
  with assms show ?thesis
    by (cases x) (simp add: Count_def Let_def split: prod.splits)
qed

lemma Paginate_offset_exact:
  assumes "1 \<le> sint page" and "1 \<le> sint perPage"
    and "(sint page - 1) * sint perPage < 2 ^ 63"
  shows "sint (offsetCount (flds (Paginate page perPage qb))) = (sint page - 1) * sint perPage"
proof -
  have p1: "sint (page - 1) = sint page - 1"
  proof -
    have "sint page < 2 ^ 63" using sint_lt [of page] by simp
    then have "- (2 ^ 63) \<le> sint page - 1" "sint page - 1 < 2 ^ 63"
      using assms(1) by simp_all
    then show ?thesis
      by (simp add: sint_word_ariths signed_take_bit_int_eq_self)
  qed
  have "0 \<le> (sint page - 1) * sint perPage"
    using assms(1,2) by simp
  then have "sint ((page - 1) * perPage) = (sint page - 1) * sint perPage"
    using assms(3) p1
    by (simp add: sint_word_ariths signed_take_bit_int_eq_self)
  then show ?thesis
    using assms(1,2) by (simp add: Paginate_def Limit_def Offset_def Let_def)
qed

lemma Paginate_offset_wraps:
  "offsetCount (flds (Paginate 4611686018427387905 4 qb)) = 0"
  by (simp add: Paginate_def Limit_def Offset_def Let_def)

subsection \<open>Worked examples of assembly\<close>

text \<open>
  Claim C5.  On a fresh builder, \<open>Table("users").Where("id","=",1).OrWhere("id","=",2)\<close>
  assembles to \<open>SELECT * FROM users WHERE id = ? OR id = ?\<close> with the parameters
  \<open>[1, 2]\<close>, and \<open>Table("users").WhereIn("id",[1,2,3])\<close> to
  \<open>SELECT * FROM users WHERE id IN (?, ?, ?)\<close> with the parameters \<open>[1, 2, 3]\<close>,
  both without a panic and without an error.  The logic keyword of the first
  WHERE condition is never written: changing it does not change what \<open>ToSQL\<close>
  returns.
\<close>

theorem ToSQL_examples:
  "map_sum id ToSQL
     (run [CTable ''users'', CWhere ''id'' ''='' (VInt 1), COrWhere ''id'' ''='' (VInt 2)]
        (NewQueryBuilder d))
   = Inr (Inr (''SELECT * FROM users WHERE id = ? OR id = ?'', [VInt 1, VInt 2]))
   \<and> map_sum id ToSQL
     (run [CTable ''users'', CWhereIn ''id'' [VInt 1, VInt 2, VInt 3]] (NewQueryBuilder d))
   = Inr (Inr (''SELECT * FROM users WHERE id IN (?, ?, ?)'', [VInt 1, VInt 2, VInt 3]))
   \<and> (\<forall>f u c cs lg.
        ToSQL (QueryBuilder (f\<lparr>whereConds := c\<lparr>logic := lg\<rparr> # cs\<rparr>) u)
        = ToSQL (QueryBuilder (f\<lparr>whereConds := c # cs\<rparr>) u))"
proof (intro conjI allI)
  show "map_sum id ToSQL
     (run [CTable ''users'', CWhere ''id'' ''='' (VInt 1), COrWhere ''id'' ''='' (VInt 2)]
        (NewQueryBuilder d))
   = Inr (Inr (''SELECT * FROM users WHERE id = ? OR id = ?'', [VInt 1, VInt 2]))"
    by code_simp
  show "map_sum id ToSQL
     (run [CTable ''users'', CWhereIn ''id'' [VInt 1, VInt 2, VInt 3]] (NewQueryBuilder d))
   = Inr (Inr (''SELECT * FROM users WHERE id IN (?, ?, ?)'', [VInt 1, VInt 2, VInt 3]))"
    by code_simp
next
  fix f :: qb_fields and u c cs lg
  have "where_step 0 (c\<lparr>logic := lg\<rparr>) acc = where_step 0 c acc" for acc
    by (cases acc) (simp add: where_step_def)
  then have "assemble (f\<lparr>whereConds := c\<lparr>logic := lg\<rparr> # cs\<rparr>)
      = assemble (f\<lparr>whereConds := c # cs\<rparr>)"
    by (intro assemble_cong) simp_all
  then show "ToSQL (QueryBuilder (f\<lparr>whereConds := c\<lparr>logic := lg\<rparr> # cs\<rparr>) u)
        = ToSQL (QueryBuilder (f\<lparr>whereConds := c # cs\<rparr>) u)"
    by (intro ToSQL_cong) simp_all
qed

subsection \<open>Pagination\<close>

text \<open>
  Claim C10.  \<open>Paginate(page, perPage)\<close> replaces a page below 1 by 1 and a page
  size below 1 by 15, then sets the limit to the page size and the offset to
  \<open>(page - 1) * perPage\<close>, the product being that of Go's \<open>int\<close>.  No other field
  of the builder changes; in particular the sticky error is left as it was.
\<close>

theorem Paginate_sets_limit_offset:
  "flds (Paginate page perPage qb) =
     (flds qb)\<lparr>limitCount := (if sint perPage < 1 then 15 else perPage),
               offsetCount := ((if sint page < 1 then 1 else page) - 1)
                              * (if sint perPage < 1 then 15 else perPage)\<rparr>
   \<and> unionQuery (Paginate page perPage qb) = unionQuery qb
   \<and> err (flds (Paginate page perPage qb)) = err (flds qb)"
  by (simp add: Paginate_def Limit_def Offset_def Let_def)

subsection \<open>A one-character quoted identifier\<close>

text \<open>
  Claim C2.  The claim says that no mutator ever panics.  On the string that is
  a single backtick, or a single double quote, \<open>isValidIdentifier\<close> takes the
  slice \<open>s[1:0]\<close> and panics, and so does \<open>Table\<close> called with it: the builder
  gets no sticky error, the call does not return.
\<close>

theorem Table_single_quote_char_panics:
  "isValidIdentifier [backtick] = Inl (SliceBoundsOutOfRange 1 0)
   \<and> isValidIdentifier [dquote] = Inl (SliceBoundsOutOfRange 1 0)
   \<and> Table [backtick] qb = Inl (SliceBoundsOutOfRange 1 0)
   \<and> Table [dquote] qb = Inl (SliceBoundsOutOfRange 1 0)"
  by (simp add: Table_def isValidIdentifier_def HasPrefix_def HasSuffix_def slice_def)

subsection \<open>Count on the error path\<close>

text \<open>
  Claim C7.  The claim says that \<open>Count\<close> restores the select columns on every
  path.  On a builder with the select columns \<open>id, name\<close> and no table, assembly
  fails, \<open>Count\<close> returns that error before it has restored anything, and the
  builder is left with the single select column \<open>COUNT(*)\<close>.
\<close>

theorem Count_error_path_keeps_COUNT:
  "(case run [CSelect [''id'', ''name'']] (NewQueryBuilder d) of
      Inl p \<Rightarrow> False
    | Inr qb \<Rightarrow>
        selectCols (flds qb) = [''id'', ''name''] \<and>
        (case Count qb ev tr of
           (r, qb', tr') \<Rightarrow>
             r = Failed (Errorf ''table name is required'' []) \<and>
             selectCols (flds qb') = [''COUNT(*)''] \<and> tr' = tr))"
  by code_simp

subsection \<open>Soft delete and WithTrashed\<close>

text \<open>
  Claim C3.  The claim says that after \<open>WithTrashed\<close> the SQL of a soft-delete
  model's query no longer has the condition \<open>deleted_at IS NULL\<close>.  \<open>WithTrashed\<close>
  only sets a flag that assembly never reads: \<open>ToSQL\<close> returns the same after it
  as before, and for the model of table \<open>posts\<close> with soft delete the SQL after
  \<open>WithTrashed\<close> is still \<open>SELECT * FROM posts WHERE deleted_at IS NULL\<close>.
\<close>

theorem WithTrashed_keeps_deleted_at_filter:
  "ToSQL (WithTrashed qb) = ToSQL qb
   \<and> map_sum id (\<lambda>qb. ToSQL (WithTrashed qb))
       (Model_Query (WithSoftDelete (NewModel ''posts'')) d)
     = Inr (Inr (''SELECT * FROM posts WHERE deleted_at IS NULL'', []))"
proof
  show "ToSQL (WithTrashed qb) = ToSQL qb"
  proof (cases qb)
    case (QueryBuilder f u)
    have "ToSQL (QueryBuilder (f\<lparr>includeTrashed := True\<rparr>) u) = ToSQL (QueryBuilder f u)"
      by (intro ToSQL_cong) (simp_all add: assemble_includeTrashed)
    then show ?thesis
      by (simp add: QueryBuilder WithTrashed_def upd_def)
  qed
  show "map_sum id (\<lambda>qb. ToSQL (WithTrashed qb))
       (Model_Query (WithSoftDelete (NewModel ''posts'')) d)
     = Inr (Inr (''SELECT * FROM posts WHERE deleted_at IS NULL'', []))"
    by code_simp
qed

lemma where_loop_snoc:
  "where_loop i (cs @ [c]) acc = where_step (i + length cs) c (where_loop i cs acc)"
  by (induction cs arbitrary: i acc) simp_all

subsection \<open>Where with the operators IN and BETWEEN\<close>

text \<open>
  Claim C9.  For a column that passes identifier validation and the operator
  \<open>IN\<close> or \<open>BETWEEN\<close>, \<open>Where(c, op, v)\<close> appends the condition with \<open>v\<close> as its
  value and with no extra parameters.  The turn of the assembly loop for such
  a condition writes \<open>c op\<close> followed by \<open>v\<close> formatted with \<open>%s\<close>, writes no
  placeholder for it and leaves the parameter list as it was; so after the
  call the WHERE loop gives the text of the earlier conditions followed by
  that, and the parameters of the earlier conditions only.
\<close>

theorem Where_IN_BETWEEN_renders_value:
  "isValidIdentifier c = Inr True \<and> (op = ''IN'' \<or> op = ''BETWEEN'') \<longrightarrow>
     Where c op v qb
       = Inr (add_where \<lparr>column = c, operator = op, cvalue = v, logic = ''AND'', params = []\<rparr> qb)
     \<and> (\<forall>i lg query ps.
          where_step i \<lparr>column = c, operator = op, cvalue = v, logic = lg, params = []\<rparr> (query, ps)
          = ((if i > 0 then query @ '' '' @ lg @ '' '' else query) @ c @ '' '' @ op @ '' '' @ fmt_s v,
             ps))
     \<and> (\<forall>qb' acc. Where c op v qb = Inr qb' \<longrightarrow>
          where_loop 0 (whereConds (flds qb')) acc
          = (case where_loop 0 (whereConds (flds qb)) acc of
               (query, ps) \<Rightarrow>
                 ((if whereConds (flds qb) \<noteq> [] then query @ '' AND '' else query)
                    @ c @ '' '' @ op @ '' '' @ fmt_s v, ps)))"
proof (intro impI, elim conjE)
  assume c: "isValidIdentifier c = Inr True" and op: "op = ''IN'' \<or> op = ''BETWEEN''"
  let ?cond = "\<lambda>lg. \<lparr>column = c, operator = op, cvalue = v, logic = lg, params = []\<rparr>"
  from op have valid: "isValidOperator op"
    by (auto simp: isValidOperator_def ToUpper_def upper_char_def validOps_def)
  have w: "Where c op v qb = Inr (add_where (?cond ''AND'') qb)"
    by (simp add: Where_def c valid)
  have step: "where_step i (?cond lg) (query, ps)
      = ((if i > 0 then query @ '' '' @ lg @ '' '' else query) @ c @ '' '' @ op @ '' '' @ fmt_s v, ps)"
    for i lg query ps
    using op by (auto simp: where_step_def)
  have loop: "where_loop 0 (whereConds (flds qb')) acc
          = (case where_loop 0 (whereConds (flds qb)) acc of
               (query, ps) \<Rightarrow>
                 ((if whereConds (flds qb) \<noteq> [] then query @ '' AND '' else query)
                    @ c @ '' '' @ op @ '' '' @ fmt_s v, ps))"
    if "Where c op v qb = Inr qb'" for qb' acc
  proof -
    from that w have "whereConds (flds qb') = whereConds (flds qb) @ [?cond ''AND'']"
      by (auto simp: add_where_def)
    then show ?thesis
      by (cases "where_loop 0 (whereConds (flds qb)) acc") (simp add: where_loop_snoc step)
  qed
  show "Where c op v qb = Inr (add_where (?cond ''AND'') qb)
     \<and> (\<forall>i lg query ps.
          where_step i (?cond lg) (query, ps)
          = ((if i > 0 then query @ '' '' @ lg @ '' '' else query) @ c @ '' '' @ op @ '' '' @ fmt_s v,
             ps))
     \<and> (\<forall>qb' acc. Where c op v qb = Inr qb' \<longrightarrow>
          where_loop 0 (whereConds (flds qb')) acc
          = (case where_loop 0 (whereConds (flds qb)) acc of
               (query, ps) \<Rightarrow>
                 ((if whereConds (flds qb) \<noteq> [] then query @ '' AND '' else query)
                    @ c @ '' '' @ op @ '' '' @ fmt_s v, ps)))"
    using w step loop by blast
qed

theorem Where_IN_BETWEEN_renders_value_witness:
  "isValidIdentifier ''id'' = Inr True
   \<and> map_sum id ToSQL (run [CTable ''users'', CWhere ''id'' ''IN'' (VStr ''(1, 2)'')] (NewQueryBuilder None))
     = Inr (Inr (''SELECT * FROM users WHERE id IN (1, 2)'', []))
   \<and> Where ''id'' ''IN'' (VStr ''(1, 2)'') (NewQueryBuilder None)
     = Inr (add_where \<lparr>column = ''id'', operator = ''IN'', cvalue = VStr ''(1, 2)'', logic = ''AND'',
                      params = []\<rparr> (NewQueryBuilder None))"
proof -
  have h: "isValidIdentifier ''id'' = Inr True" by code_simp
  have e: "map_sum id ToSQL (run [CTable ''users'', CWhere ''id'' ''IN'' (VStr ''(1, 2)'')] (NewQueryBuilder None))
     = Inr (Inr (''SELECT * FROM users WHERE id IN (1, 2)'', []))" by code_simp
  show ?thesis
    using h e Where_IN_BETWEEN_renders_value [of "''id''" "''IN''" "VStr ''(1, 2)''" "NewQueryBuilder None"]
    by simp
qed

subsection \<open>Preconditions of the chunk iterators\<close>

text \<open>
  Claim C8.  With a size that is zero or negative, \<open>Chunk\<close> and \<open>ChunkByID\<close>
  return the error \<open>chunk size must be positive\<close> and the log is what it was:
  no query was issued and the callback was not invoked.  \<open>ChunkByID\<close> called
  with a column that identifier validation refuses also returns an error with
  the log unchanged.
\<close>

theorem Chunk_rejects_nonpositive_size:
  "(sint sz \<le> 0 \<longrightarrow>
      Chunk sz fn qb ev tr = Some (Failed (Errorf ''chunk size must be positive'' []), tr)
      \<and> ChunkByID sz col fn qb ev tr = Some (Failed (Errorf ''chunk size must be positive'' []), tr))
   \<and> (isValidIdentifier col = Inr False \<longrightarrow>
      (\<exists>e. ChunkByID sz col fn qb ev tr = Some (Failed e, tr)))"
  by (simp add: Chunk_def ChunkByID_def)

theorem Chunk_rejects_nonpositive_size_witness:
  "sint (0 :: go_int) \<le> 0 \<and> sint (- 1 :: go_int) \<le> 0
   \<and> Chunk 0 (\<lambda>_ _. True) (NewQueryBuilder None) empty_env []
       = Some (Failed (Errorf ''chunk size must be positive'' []), [])
   \<and> Chunk (- 1) (\<lambda>_ _. True) (NewQueryBuilder None) empty_env []
       = Some (Failed (Errorf ''chunk size must be positive'' []), [])
   \<and> isValidIdentifier ''id; DROP'' = Inr False
   \<and> (\<exists>e. ChunkByID 10 ''id; DROP'' (\<lambda>_ _. True) (NewQueryBuilder None) empty_env []
            = Some (Failed e, []))"
proof -
  have a: "sint (0 :: go_int) \<le> 0" and b: "sint (- 1 :: go_int) \<le> 0" by simp_all
  have c: "isValidIdentifier ''id; DROP'' = Inr False" by code_simp
  note t = Chunk_rejects_nonpositive_size
  show ?thesis
    using a b c
      t [of 0 "\<lambda>_ _. True" "NewQueryBuilder None" empty_env "[]" "''id; DROP''"]
      t [of "- 1" "\<lambda>_ _. True" "NewQueryBuilder None" empty_env "[]" "''id; DROP''"]
      t [of 10 "\<lambda>_ _. True" "NewQueryBuilder None" empty_env "[]" "''id; DROP''"]
    by simp
qed

subsection \<open>Transactions\<close>

text \<open>
  Claim C6.  Without a connection to begin a transaction on, \<open>Transaction\<close>
  returns a configuration error and the log is unchanged: nothing was begun and
  the function was not called.  When the transaction has begun and the
  function has returned: if it returned an error and the rollback succeeds,
  \<open>Transaction\<close> returns that error itself; if the rollback fails too, it
  returns an error made from the rollback's error and, wrapped with \<open>%w\<close>, the
  function's error; if the function returned nil, \<open>Transaction\<close> commits and
  returns nil, or the commit's error wrapped in a commit-failure error.
\<close>

theorem Transaction_outcomes:
  "(rawDB (flds qb) = None \<longrightarrow>
      Transaction fn qb ev tr
        = (Failed (Errorf ''cannot start transaction: no database connection'' []), tr))
   \<and> (rawDB (flds qb) \<noteq> None \<and> begin_result ev tr = None \<and>
      fn (newQueryBuilderWithDB (Some SqlTx) (rawDB (flds qb))) (tr @ [EvBegin, EvCallback]) = (r, tr1)
      \<longrightarrow>
      (\<forall>e. r = Some e \<and> rollback_result ev tr1 = None \<longrightarrow>
           Transaction fn qb ev tr = (Failed e, tr1 @ [EvRollback]))
      \<and> (\<forall>e rbErr. r = Some e \<and> rollback_result ev tr1 = Some rbErr \<longrightarrow>
           Transaction fn qb ev tr
             = (Failed (Errorf ''rollback failed: %v (original error: %w)'' [V rbErr, W e]),
                tr1 @ [EvRollback]))
      \<and> (r = None \<and> commit_result ev tr1 = None \<longrightarrow>
           Transaction fn qb ev tr = (Done (), tr1 @ [EvCommit]))
      \<and> (\<forall>ce. r = None \<and> commit_result ev tr1 = Some ce \<longrightarrow>
           Transaction fn qb ev tr
             = (Failed (Errorf ''failed to commit transaction: %w'' [W ce]), tr1 @ [EvCommit])))"
  by (auto simp: Transaction_def Let_def)


theorem Transaction_outcomes_witness:
  "Transaction (\<lambda>q t. (Some (External ''boom''), t)) (NewQueryBuilder None)
      \<lparr>query_result = \<lambda>_ _ _. Inr [], scan_result = \<lambda>_ _ _. Inr 0,
       exec_result = \<lambda>_ _ _. Inr (0, 0), begin_result = \<lambda>_. None,
       commit_result = \<lambda>_. None, rollback_result = \<lambda>_. None\<rparr> []
     = (Failed (Errorf ''cannot start transaction: no database connection'' []), [])
   \<and> Transaction (\<lambda>q t. (Some (External ''boom''), t)) (NewQueryBuilder (Some SqlDB))
      \<lparr>query_result = \<lambda>_ _ _. Inr [], scan_result = \<lambda>_ _ _. Inr 0,
       exec_result = \<lambda>_ _ _. Inr (0, 0), begin_result = \<lambda>_. None,
       commit_result = \<lambda>_. None, rollback_result = \<lambda>_. None\<rparr> []
     = (Failed (External ''boom''), [EvBegin, EvCallback, EvRollback])
   \<and> Transaction (\<lambda>q t. (Some (External ''boom''), t)) (NewQueryBuilder (Some SqlDB))
      \<lparr>query_result = \<lambda>_ _ _. Inr [], scan_result = \<lambda>_ _ _. Inr 0,
       exec_result = \<lambda>_ _ _. Inr (0, 0), begin_result = \<lambda>_. None,
       commit_result = \<lambda>_. None, rollback_result = \<lambda>_. Some (External ''gone'')\<rparr> []
     = (Failed (Errorf ''rollback failed: %v (original error: %w)''
                  [V (External ''gone''), W (External ''boom'')]),
        [EvBegin, EvCallback, EvRollback])
   \<and> Transaction (\<lambda>q t. (None, t)) (NewQueryBuilder (Some SqlDB))
      \<lparr>query_result = \<lambda>_ _ _. Inr [], scan_result = \<lambda>_ _ _. Inr 0,
       exec_result = \<lambda>_ _ _. Inr (0, 0), begin_result = \<lambda>_. None,
       commit_result = \<lambda>_. None, rollback_result = \<lambda>_. None\<rparr> []
     = (Done (), [EvBegin, EvCallback, EvCommit])
   \<and> Transaction (\<lambda>q t. (None, t)) (NewQueryBuilder (Some SqlDB))
      \<lparr>query_result = \<lambda>_ _ _. Inr [], scan_result = \<lambda>_ _ _. Inr 0,
       exec_result = \<lambda>_ _ _. Inr (0, 0), begin_result = \<lambda>_. None,
       commit_result = \<lambda>_. Some (External ''full''), rollback_result = \<lambda>_. None\<rparr> []
     = (Failed (Errorf ''failed to commit transaction: %w'' [W (External ''full'')]),
        [EvBegin, EvCallback, EvCommit])"
proof -
  let ?fail = "\<lambda>(q :: QueryBuilder) (t :: event list). (Some (External ''boom''), t)"
  let ?ok = "\<lambda>(q :: QueryBuilder) (t :: event list). (None :: error option, t)"
  let ?env = "\<lambda>c r. \<lparr>query_result = \<lambda>_ _ _. Inr [], scan_result = \<lambda>_ _ _. Inr 0,
       exec_result = \<lambda>_ _ _. Inr (0, 0), begin_result = \<lambda>_. None,
       commit_result = \<lambda>_. c, rollback_result = \<lambda>_. r\<rparr>"
  have raw: "rawDB (flds (NewQueryBuilder d)) = d" for d
    by (simp add: NewQueryBuilder_def newQueryBuilderWithDB_def)
  note t = Transaction_outcomes
  show ?thesis
    using t [of "NewQueryBuilder None" ?fail "?env None None" "[]"]
      t [of "NewQueryBuilder (Some SqlDB)" ?fail "?env None None" "[]"
            "Some (External ''boom'')" "[EvBegin, EvCallback]"]
      t [of "NewQueryBuilder (Some SqlDB)" ?fail "?env None (Some (External ''gone''))" "[]"
            "Some (External ''boom'')" "[EvBegin, EvCallback]"]
      t [of "NewQueryBuilder (Some SqlDB)" ?ok "?env None None" "[]"
            "None" "[EvBegin, EvCallback]"]
      t [of "NewQueryBuilder (Some SqlDB)" ?ok "?env (Some (External ''full'')) None" "[]"
            "None" "[EvBegin, EvCallback]"]
    by (simp add: raw)
qed

subsection \<open>What a call does to the sticky error\<close>

lemma builtin_idents:
  "isValidIdentifier ''active'' = Inr True"
  "isValidIdentifier ''created_at'' = Inr True"
  "isValidIdentifier ''published'' = Inr True"
  "isValidIdentifier ''published_at'' = Inr True"
  "isValidIdentifier ''deleted_at'' = Inr True"
  by code_simp+

lemma builtin_ops: "isValidOperator ''=''" "isValidOperator ''>''"
  by code_simp+

lemma builtin_dirs: "validOrderDirection (ToUpper ''DESC'')" "validOrderDirection (ToUpper ''ASC'')"
  by code_simp+

lemmas mutator_defs =
  Table_def Select_def Where_def OrWhere_def WhereIn_def WhereBetween_def WhereNull_def
  WhereNotNull_def Join_def LeftJoin_def RightJoin_def OrderBy_def GroupBy_def Having_def
  Limit_def Offset_def UnionQ_def UnionAll_def Paginate_def WithTrashed_def OnlyTrashed_def
  Active_def Recent_def Oldest_def Published_def Draft_def
  set_err_def add_where_def add_join_def

lemma apply_call_err:
  assumes "err (flds q0) = None" and "apply_call c qb = Inr qb'"
  shows "\<exists>q1. apply_call c q0 = Inr q1 \<and>
           err (flds qb') = (case err (flds q1) of None \<Rightarrow> err (flds qb) | Some e \<Rightarrow> Some e)"
  using assms
  by (cases c)
     (auto simp: mutator_defs Let_def builtin_idents builtin_ops builtin_dirs
           split: sum.splits option.splits if_splits)


lemma call_error_step:
  assumes "apply_call c qb = Inr qb'"
  shows "err (flds qb') = (case call_error c of None \<Rightarrow> err (flds qb) | Some e \<Rightarrow> Some e)"
proof -
  have "err (flds (NewQueryBuilder None)) = None"
    by (simp add: NewQueryBuilder_def newQueryBuilderWithDB_def)
  from apply_call_err [OF this assms] show ?thesis
    by (auto simp: call_error_def)
qed

lemma run_err:
  "run ms qb = Inr qb' \<Longrightarrow> err (flds qb') = sticky_after ms (err (flds qb))"
proof (induction ms arbitrary: qb)
  case Nil
  then show ?case by simp
next
  case (Cons c cs)
  from Cons.prems obtain q1 where c: "apply_call c qb = Inr q1" and r: "run cs q1 = Inr qb'"
    by (auto split: sum.splits)
  from Cons.IH [OF r] call_error_step [OF c] show ?case by simp
qed

lemma sticky_after_keeps: "e \<noteq> None \<Longrightarrow> sticky_after ms e \<noteq> None"
  by (induction ms arbitrary: e) (auto split: option.splits)

lemma ToSQL_err: "err (flds qb) = Some e \<Longrightarrow> ToSQL qb = Inl e"
  by (cases qb) simp


subsection \<open>The sticky error\<close>




subsection \<open>The soft-delete filter of a model query\<close>

text \<open>
  No mutator removes a WHERE condition, and assembly writes the first
  condition right after \<open>WHERE\<close>.  So for a model with soft delete, whatever
  chain of calls follows \<open>Query\<close> (\<open>WithTrashed\<close> and \<open>OnlyTrashed\<close> included),
  the SQL that \<open>ToSQL\<close> returns contains \<open>deleted_at IS NULL\<close>.
\<close>

lemma apply_call_keeps_whereConds:
  "apply_call c qb = Inr qb' \<Longrightarrow> \<exists>cs. whereConds (flds qb') = whereConds (flds qb) @ cs"
  by (cases c) (auto simp: mutator_defs Let_def split: sum.splits option.splits if_splits)

lemma run_keeps_whereConds:
  "run ms qb = Inr qb' \<Longrightarrow> \<exists>cs. whereConds (flds qb') = whereConds (flds qb) @ cs"
proof (induction ms arbitrary: qb)
  case Nil
  then show ?case by simp
next
  case (Cons c ms)
  from Cons.prems obtain q1 where c: "apply_call c qb = Inr q1" and r: "run ms q1 = Inr qb'"
    by (auto split: sum.splits)
  from apply_call_keeps_whereConds [OF c] Cons.IH [OF r] show ?case by auto
qed

lemma where_step_appends: "\<exists>t. fst (where_step i c (q, p)) = q @ t"
  by (simp add: where_step_def Let_def)

lemma where_loop_appends: "\<exists>t. fst (where_loop i cs (q, p)) = q @ t"
proof (induction cs arbitrary: i q p)
  case Nil
  then show ?case by simp
next
  case (Cons c cs)
  obtain q1 p1 where s: "where_step i c (q, p) = (q1, p1)"
    by (cases "where_step i c (q, p)")
  from where_step_appends [of i c q p] s obtain t where "q1 = q @ t" by auto
  moreover from Cons.IH [of "Suc i" q1 p1] obtain t' where
    "fst (where_loop (Suc i) cs (q1, p1)) = q1 @ t'" by auto
  ultimately show ?case by (simp add: s)
qed

lemma having_loop_appends: "\<exists>t. fst (having_loop i cs (q, p)) = q @ t"
proof (induction cs arbitrary: i q p)
  case Nil
  then show ?case by simp
next
  case (Cons c cs)
  obtain q1 p1 where s: "having_step i c (q, p) = (q1, p1)"
    by (cases "having_step i c (q, p)")
  then have "\<exists>t. q1 = q @ t" by (auto simp: having_step_def Let_def)
  then obtain t where "q1 = q @ t" by auto
  moreover from Cons.IH [of "Suc i" q1 p1] obtain t' where
    "fst (having_loop (Suc i) cs (q1, p1)) = q1 @ t'" by auto
  ultimately show ?case by (simp add: s)
qed

lemma append_text: "\<exists>t. fst (if b then (fst acc @ s, snd acc) else acc) = fst acc @ t"
  by simp

lemma assemble_shows_first_IS_NULL:
  assumes "whereConds f = c # cs" and "operator c = ''IS NULL''"
  shows "\<exists>pre post. fst (assemble f) = pre @ column c @ '' IS NULL'' @ post"
proof -
  define q0 where "q0 = join_loop (joins f)
     ((''SELECT '' @ (if length (selectCols f) = 0 then ''*''
                       else strings_Join (selectCols f) '', '')) @ '' FROM '' @ table f)"
  define a1 where "a1 = (if length (whereConds f) > 0
                 then where_loop 0 (whereConds f) (q0 @ '' WHERE '', [])
                 else (q0, []))"
  define a2 where "a2 = (if length (groupBy f) > 0
                 then (fst a1 @ '' GROUP BY '' @ strings_Join (groupBy f) '', '', snd a1)
                 else a1)"
  define a3 where "a3 = (if length (having f) > 0
                 then having_loop 0 (having f) (fst a2 @ '' HAVING '', snd a2)
                 else a2)"
  define a4 where "a4 = (if length (orderBy f) > 0
                 then (fst a3 @ '' ORDER BY '' @ strings_Join (orderBy f) '', '', snd a3)
                 else a3)"
  define a5 where "a5 = (if sint (limitCount f) > 0
                 then (fst a4 @ '' LIMIT '' @ fmt_d (limitCount f), snd a4)
                 else a4)"
  define a6 where "a6 = (if sint (offsetCount f) > 0
                 then (fst a5 @ '' OFFSET '' @ fmt_d (offsetCount f), snd a5)
                 else a5)"
  have asm: "assemble f = a6"
    unfolding assemble_def Let_def a6_def a5_def a4_def a3_def a2_def a1_def q0_def ..
  have s: "where_step 0 c (q0 @ '' WHERE '', []) = ((q0 @ '' WHERE '') @ column c @ '' IS NULL'', [])"
    using assms(2) by (simp add: where_step_def)
  from where_loop_appends [of "Suc 0" cs "(q0 @ '' WHERE '') @ column c @ '' IS NULL''" "[]"]
  obtain t1 where "fst a1 = (q0 @ '' WHERE '') @ column c @ '' IS NULL'' @ t1"
    by (auto simp: a1_def assms(1) s)
  moreover obtain t2 where "fst a2 = fst a1 @ t2"
    unfolding a2_def using append_text by blast
  moreover obtain t3 where "fst a3 = fst a2 @ t3"
  proof (cases "length (having f) > 0")
    case True
    from having_loop_appends [of 0 "having f" "fst a2 @ '' HAVING ''" "snd a2"] True that
    show ?thesis by (auto simp: a3_def)
  next
    case False
    with that [of "[]"] show ?thesis by (simp add: a3_def)
  qed
  moreover obtain t4 where "fst a4 = fst a3 @ t4"
    unfolding a4_def using append_text by blast
  moreover obtain t5 where "fst a5 = fst a4 @ t5"
    unfolding a5_def using append_text by blast
  moreover obtain t6 where "fst a6 = fst a5 @ t6"
    unfolding a6_def using append_text by blast
  ultimately have "fst a6 = (q0 @ '' WHERE '') @ column c @ '' IS NULL'' @ (t1 @ t2 @ t3 @ t4 @ t5 @ t6)"
    by simp
  then show ?thesis unfolding asm by blast
qed

lemma ToSQL_shows_first_IS_NULL:
  assumes "whereConds (flds qb) = c # cs" and "operator c = ''IS NULL''"
    and "ToSQL qb = Inr (sql, ps)"
  shows "\<exists>pre post. sql = pre @ column c @ '' IS NULL'' @ post"
proof (cases qb)
  case (QueryBuilder f u)
  with assms(1) have "whereConds f = c # cs" by simp
  from assemble_shows_first_IS_NULL [OF this assms(2)]
  obtain pre post where a: "fst (assemble f) = pre @ column c @ '' IS NULL'' @ post"
    by blast
  obtain q p where qp: "assemble f = (q, p)" by (cases "assemble f")
  with a have q: "q = pre @ column c @ '' IS NULL'' @ post" by simp
  show ?thesis
  proof (cases u)
    case None
    with assms(3) QueryBuilder qp q show ?thesis
      by (auto split: option.splits if_splits)
  next
    case (Some uq)
    with assms(3) QueryBuilder qp obtain t where "sql = q @ t"
      by (auto split: option.splits if_splits sum.splits)
    with q have "sql = pre @ column c @ '' IS NULL'' @ (post @ t)" by simp
    then show ?thesis by blast
  qed
qed

lemma soft_delete_filter_stays:
  assumes "softDelete m" and "Model_Query m d = Inr q0" and "run ms q0 = Inr qb"
    and "ToSQL qb = Inr (sql, ps)"
  shows "\<exists>pre post. sql = pre @ ''deleted_at IS NULL'' @ post"
proof -
  let ?c = "\<lparr>column = ''deleted_at'', operator = ''IS NULL'', cvalue = VStr [], logic = ''AND'',
              params = []\<rparr>"
  from assms(1,2) have "whereConds (flds q0) = [?c] \<or> err (flds q0) \<noteq> None"
    by (auto simp: Model_Query_def mutator_defs NewQueryBuilder_def newQueryBuilderWithDB_def
             split: sum.splits if_splits)
  moreover have "err (flds q0) = None"
  proof (rule ccontr)
    assume "err (flds q0) \<noteq> None"
    with run_err [OF assms(3)] have "err (flds qb) \<noteq> None"
      by (simp add: sticky_after_keeps)
    then obtain e where "err (flds qb) = Some e" by auto
    from ToSQL_err [OF this] assms(4) show False by simp
  qed
  ultimately have "whereConds (flds q0) = [?c]" by simp
  with run_keeps_whereConds [OF assms(3)] obtain cs where "whereConds (flds qb) = ?c # cs"
    by auto
  from ToSQL_shows_first_IS_NULL [OF this _ assms(4)] show ?thesis by simp
qed

subsection \<open>Placeholders match parameters\<close>

lemma placeholders_append [simp]: "placeholders (a @ b) = placeholders a + placeholders b"
  by (simp add: placeholders_def)

lemma placeholders_Nil [simp]: "placeholders [] = 0"
  by (simp add: placeholders_def)



lemma no_q_append [simp]: "no_q (a @ b) = (no_q a \<and> no_q b)"
  by (auto simp: no_q_def)

lemma no_q_Nil [simp]: "no_q []"
  by (simp add: no_q_def)





lemma upper_char_qmark: "upper_char c = qmark \<Longrightarrow> c = qmark"
  by (auto simp: upper_char_def qmark_def split: option.splits if_splits)





lemma no_q_lits [simp]:
  "no_q '' ''" "no_q '', ''" "no_q ''*''" "no_q ''SELECT ''" "no_q '' FROM ''" "no_q '' JOIN ''"
  "no_q '' ON ''" "no_q '' WHERE ''" "no_q '' GROUP BY ''" "no_q '' HAVING ''"
  "no_q '' ORDER BY ''" "no_q '' LIMIT ''" "no_q '' OFFSET ''" "no_q ''UNION ALL''"
  "no_q ''UNION''" "no_q ''INNER''" "no_q ''LEFT''" "no_q ''RIGHT''" "no_q ''AND''" "no_q ''OR''"
  "no_q ''IS NULL''" "no_q ''IS NOT NULL''" "no_q ''IN''" "no_q ''BETWEEN''" "no_q '' ASC''"
  "no_q ''(''" "no_q '')''"
  by (simp_all add: no_q_def qmark_def)































end
